theory Spec2Isabelle
  imports Main
begin

section \<open>Data model\<close>

text \<open>
  The engine of \<^verbatim>\<open>src/main.py\<close>: the classes \<^verbatim>\<open>Figure\<close> and \<^verbatim>\<open>GameState\<close>.
  A \<^verbatim>\<open>Figure\<close> is a mutable object shared between the board, the alive list and the
  dead pools, so figures live in an explicit store indexed by object identity (\<open>ref\<close>),
  and every container holds references. The message string that the action methods return
  beside their success flag is not modelled; only the flag is.
\<close>

datatype FigureType = KNIGHT | BARBARIAN | ARBALIST | BLACK_MAGE | WHITE_MAGE

datatype Player = ONE | TWO

type_synonym pos = "int \<times> int"

type_synonym ref = nat

record Figure =
  ftype :: FigureType
  player :: Player
  position :: "pos option"
  has_moved :: bool
  has_acted :: bool
  counter_containment_turns :: int
  max_life :: int
  move :: int
  attack_power :: int
  reach :: int
  life :: int
  is_dead :: bool

text \<open>\<^verbatim>\<open>Figure.__init__\<close>: the statistics are set from the type (the field \<^verbatim>\<open>attack\<close> of
  the source is \<open>attack_power\<close> here, the method keeps the name \<open>attack\<close>).\<close>

definition stats :: "FigureType \<Rightarrow> int \<times> int \<times> int \<times> int" where
  "stats t = (case t of
      KNIGHT \<Rightarrow> (7, 4, 3, 1)
    | BARBARIAN \<Rightarrow> (8, 3, 4, 1)
    | ARBALIST \<Rightarrow> (5, 2, 2, 3)
    | BLACK_MAGE \<Rightarrow> (7, 2, 1, 2)
    | WHITE_MAGE \<Rightarrow> (4, 2, 1, 2))"

definition Figure_init :: "FigureType \<Rightarrow> Player \<Rightarrow> Figure" where
  "Figure_init figure_type pl =
     (case stats figure_type of (ml, mv, att, rch) \<Rightarrow>
        \<lparr> ftype = figure_type, player = pl, position = None,
          has_moved = False, has_acted = False, counter_containment_turns = 0,
          max_life = ml, move = mv, attack_power = att, reach = rch,
          life = ml, is_dead = False \<rparr>)"

record GameState =
  board :: "pos \<Rightarrow> ref option"
  current_player :: Player
  figures :: "ref list"
  dead_figures :: "Player \<Rightarrow> ref list"
  scores :: "Player \<Rightarrow> int"
  terrain :: "pos list"
  magic_bomb_used :: "Player \<Rightarrow> bool"
  turn_count :: int
  game_over :: bool
  winner :: "Player option"
  store :: "ref \<Rightarrow> Figure"

text \<open>\<^verbatim>\<open>GameState.__init__\<close>; the figure objects exist outside the game state, so the
  store is a parameter.\<close>

definition GameState_init :: "(ref \<Rightarrow> Figure) \<Rightarrow> GameState" where
  "GameState_init st =
     \<lparr> board = (\<lambda>_. None), current_player = ONE, figures = [],
       dead_figures = (\<lambda>_. []), scores = (\<lambda>_. 0), terrain = [(3, 0), (4, 7)],
       magic_bomb_used = (\<lambda>_. False), turn_count = 0, game_over = False,
       winner = None, store = st \<rparr>"

subsection \<open>Exceptions and the board as a Python list of lists\<close>

datatype error = IndexError | TypeError | ValueError

datatype 'a outcome = Return 'a | Raise error

text \<open>
  The board is an 8 by 8 list of lists that is never resized. Only the cells of
  \<open>[0,8) \<times> [0,8)\<close> of \<open>board\<close> are meaningful. A Python index \<open>i\<close> into a list of
  length 8 reads slot \<open>i\<close> for \<open>0 \<le> i < 8\<close>, slot \<open>i + 8\<close> for \<open>-8 \<le> i < 0\<close>, and
  raises \<^verbatim>\<open>IndexError\<close> otherwise.
\<close>

definition py_idx :: "int \<Rightarrow> int option" where
  "py_idx i = (if 0 \<le> i \<and> i < 8 then Some i
               else if - 8 \<le> i \<and> i < 0 then Some (i + 8) else None)"

definition board_get :: "GameState \<Rightarrow> pos \<Rightarrow> error + ref option" where
  "board_get s p = (case p of (row, col) \<Rightarrow>
     (case py_idx row of None \<Rightarrow> Inl IndexError
      | Some r \<Rightarrow> (case py_idx col of None \<Rightarrow> Inl IndexError
                   | Some c \<Rightarrow> Inr (board s (r, c)))))"

definition board_set :: "GameState \<Rightarrow> pos \<Rightarrow> ref option \<Rightarrow> error + GameState" where
  "board_set s p v = (case p of (row, col) \<Rightarrow>
     (case py_idx row of None \<Rightarrow> Inl IndexError
      | Some r \<Rightarrow> (case py_idx col of None \<Rightarrow> Inl IndexError
                   | Some c \<Rightarrow> Inr (s\<lparr>board := (board s)((r, c) := v)\<rparr>))))"

text \<open>Assignment to attributes of the figure object \<open>t\<close>.\<close>

definition upd :: "GameState \<Rightarrow> ref \<Rightarrow> (Figure \<Rightarrow> Figure) \<Rightarrow> GameState" where
  "upd s t g = s\<lparr>store := (store s)(t := g (store s t))\<rparr>"

definition opponent_of :: "Player \<Rightarrow> Player" where
  "opponent_of p = (if p = ONE then TWO else ONE)"

section \<open>Queries and geometry\<close>

definition get_start_zone :: "Player \<Rightarrow> pos list" where
  "get_start_zone p =
     (if p = ONE then concat (map (\<lambda>row. map (\<lambda>col. (row, col)) [0..7]) [0..1])
      else concat (map (\<lambda>row. map (\<lambda>col. (row, col)) [0..7]) [6..7]))"

definition is_valid_position :: "pos \<Rightarrow> bool" where
  "is_valid_position p = (case p of (row, col) \<Rightarrow> 0 \<le> row \<and> row < 8 \<and> 0 \<le> col \<and> col < 8)"

definition is_terrain :: "GameState \<Rightarrow> pos \<Rightarrow> bool" where
  "is_terrain s p = (p \<in> set (terrain s))"

definition get_figure_at :: "GameState \<Rightarrow> pos \<Rightarrow> ref option" where
  "get_figure_at s p = (if \<not> is_valid_position p then None else board s p)"

text \<open>\<^verbatim>\<open>_in_reach\<close>: unpacking a position that is \<^verbatim>\<open>None\<close> raises \<^verbatim>\<open>TypeError\<close>.\<close>

definition in_reach :: "pos option \<Rightarrow> pos option \<Rightarrow> int \<Rightarrow> error + bool" where
  "in_reach from_pos to_pos rch =
     (case from_pos of None \<Rightarrow> Inl TypeError
      | Some (fr, fc) \<Rightarrow>
        (case to_pos of None \<Rightarrow> Inl TypeError
         | Some (tr, tc) \<Rightarrow> Inr (\<bar>tr - fr\<bar> + \<bar>tc - fc\<bar> \<le> rch)))"

text \<open>
  \<^verbatim>\<open>int(fr + dr * i)\<close> with \<^verbatim>\<open>dr = (tr - fr) / steps\<close>: the quotient is taken exactly and
  truncated towards zero, as \<^verbatim>\<open>int\<close> does. On axis-aligned and exactly diagonal lines
  \<^verbatim>\<open>dr\<close> is one of -1.0, 0.0, 1.0 and the floating-point computation of the source is
  exact.
\<close>

definition line_coord :: "int \<Rightarrow> int \<Rightarrow> int \<Rightarrow> int \<Rightarrow> int" where
  "line_coord f t steps i =
     (let num = f * steps + (t - f) * i
      in if 0 \<le> num then num div steps else - ((- num) div steps))"

text \<open>\<^verbatim>\<open>_is_path_clear\<close>: the loop runs over \<^verbatim>\<open>range(1, steps + (0 if check_target else 1))\<close>
  and returns \<^verbatim>\<open>False\<close> at the first occupied or terrain cell.\<close>

definition is_path_clear :: "GameState \<Rightarrow> pos \<Rightarrow> pos \<Rightarrow> bool \<Rightarrow> bool \<Rightarrow> bool" where
  "is_path_clear s from_pos to_pos diagonal check_target =
     (case from_pos of (fr, fc) \<Rightarrow> case to_pos of (tr, tc) \<Rightarrow>
        if \<not> diagonal \<and> fr \<noteq> tr \<and> fc \<noteq> tc then False
        else
          let steps = max \<bar>tr - fr\<bar> \<bar>tc - fc\<bar> in
          if steps = 0 then True
          else list_all
                 (\<lambda>i. let r = line_coord fr tr steps i; c = line_coord fc tc steps i
                      in get_figure_at s (r, c) = None \<and> \<not> is_terrain s (r, c))
                 [1 .. steps + (if check_target then 0 else 1) - 1])"

section \<open>Combat resolver\<close>

text \<open>
  \<^verbatim>\<open>_deal_damage\<close>. The state is returned also when an exception is raised, as it is
  at the raise: \<^verbatim>\<open>row, col = target.position\<close> raises \<^verbatim>\<open>TypeError\<close> on \<^verbatim>\<open>None\<close>, the
  board write raises \<^verbatim>\<open>IndexError\<close> out of range, and \<^verbatim>\<open>list.remove\<close> raises
  \<^verbatim>\<open>ValueError\<close> when the target is not in the alive list.
\<close>

definition deal_damage :: "GameState \<Rightarrow> ref \<Rightarrow> int \<Rightarrow> unit outcome \<times> GameState" where
  "deal_damage s target damage =
     (let s1 = upd s target (\<lambda>f. f\<lparr>life := life f - damage\<rparr>) in
      if life (store s1 target) \<le> 0 \<and> \<not> is_dead (store s1 target) then
        let s2 = upd s1 target (\<lambda>f. f\<lparr>life := 0, is_dead := True\<rparr>) in
        (case position (store s2 target) of
           None \<Rightarrow> (Raise TypeError, s2)
         | Some rc \<Rightarrow>
           (case board_set s2 rc None of
              Inl e \<Rightarrow> (Raise e, s2)
            | Inr s3 \<Rightarrow>
              if target \<notin> set (figures s3) then (Raise ValueError, s3)
              else
                let s4 = s3\<lparr>figures := remove1 target (figures s3)\<rparr>;
                    p = player (store s4 target);
                    s5 = s4\<lparr>dead_figures := (dead_figures s4)(p := dead_figures s4 p @ [target])\<rparr>;
                    opponent = (if p = ONE then TWO else ONE)
                in (Return (), s5\<lparr>scores := (scores s5)(opponent := scores s5 opponent + 1)\<rparr>)))
      else (Return (), s1))"

text \<open>\<^verbatim>\<open>for target in damaged_figures: self._deal_damage(target, 2)\<close>, stopping at an
  exception.\<close>

fun damage_all :: "GameState \<Rightarrow> ref list \<Rightarrow> int \<Rightarrow> unit outcome \<times> GameState" where
  "damage_all s [] d = (Return (), s)"
| "damage_all s (t # ts) d =
     (case deal_damage s t d of
        (Raise e, s') \<Rightarrow> (Raise e, s')
      | (Return _, s') \<Rightarrow> damage_all s' ts d)"

section \<open>Action resolver\<close>

definition place_figure :: "GameState \<Rightarrow> ref \<Rightarrow> pos \<Rightarrow> bool outcome \<times> GameState" where
  "place_figure s figure p =
     (case board_get s p of
        Inl e \<Rightarrow> (Raise e, s)
      | Inr (Some _) \<Rightarrow> (Return False, s)
      | Inr None \<Rightarrow>
        if p \<notin> set (get_start_zone (player (store s figure))) then (Return False, s)
        else (case board_set s p (Some figure) of
                Inl e \<Rightarrow> (Raise e, s)
              | Inr s1 \<Rightarrow>
                let s2 = upd s1 figure (\<lambda>f. f\<lparr>position := Some p\<rparr>)
                in (Return True, s2\<lparr>figures := figures s2 @ [figure]\<rparr>)))"

definition distance :: "FigureType \<Rightarrow> pos \<Rightarrow> pos \<Rightarrow> int" where
  "distance t a b = (case a of (ar, ac) \<Rightarrow> case b of (br, bc) \<Rightarrow>
     if t = ARBALIST then max \<bar>br - ar\<bar> \<bar>bc - ac\<bar> else \<bar>br - ar\<bar> + \<bar>bc - ac\<bar>)"

definition move_figure :: "GameState \<Rightarrow> ref \<Rightarrow> pos \<Rightarrow> bool outcome \<times> GameState" where
  "move_figure s figure new_pos =
     (let f = store s figure in
      if has_acted f \<or> has_moved f then (Return False, s)
      else if counter_containment_turns f > 0 then (Return False, s)
      else if is_terrain s new_pos then (Return False, s)
      else if get_figure_at s new_pos \<noteq> None then (Return False, s)
      else (case position f of
              None \<Rightarrow> (Raise TypeError, s)
            | Some old_pos \<Rightarrow>
              if distance (ftype f) old_pos new_pos > move f then (Return False, s)
              else if \<not> is_path_clear s old_pos new_pos (ftype f = ARBALIST) True
                then (Return False, s)
              else (case board_set s old_pos None of
                      Inl e \<Rightarrow> (Raise e, s)
                    | Inr s1 \<Rightarrow>
                      (case board_set s1 new_pos (Some figure) of
                         Inl e \<Rightarrow> (Raise e, s1)
                       | Inr s2 \<Rightarrow>
                         (Return True,
                          upd s2 figure (\<lambda>f. f\<lparr>position := Some new_pos, has_moved := True\<rparr>))))))"

definition attack :: "GameState \<Rightarrow> ref \<Rightarrow> pos \<Rightarrow> bool outcome \<times> GameState" where
  "attack s attacker target_pos =
     (let a = store s attacker in
      if has_acted a then (Return False, s)
      else if counter_containment_turns a > 0 then (Return False, s)
      else (case get_figure_at s target_pos of
              None \<Rightarrow> (Return False, s)
            | Some target \<Rightarrow>
              if player (store s target) = player a then (Return False, s)
              else (case position a of
                      None \<Rightarrow> (Raise TypeError, s)
                    | Some att_pos \<Rightarrow>
                      if distance (ftype a) att_pos target_pos > reach a then (Return False, s)
                      else if \<not> is_path_clear s att_pos target_pos (ftype a = ARBALIST) False
                        then (Return False, s)
                      else
                        let damage = attack_power a +
                              (if ftype a \<in> {BLACK_MAGE, WHITE_MAGE}
                                  \<and> ftype (store s target) = BARBARIAN then 1 else 0)
                        in (case deal_damage s target damage of
                              (Raise e, s') \<Rightarrow> (Raise e, s')
                            | (Return _, s') \<Rightarrow>
                              (Return True, upd s' attacker (\<lambda>f. f\<lparr>has_acted := True\<rparr>))))))"

section \<open>Special-ability resolver\<close>

text \<open>
  \<^verbatim>\<open>knight_charge\<close>. The loop over \<^verbatim>\<open>range(1, 5)\<close> breaks at the board edge and at
  terrain; an enemy in a scanned cell is appended to \<^verbatim>\<open>damaged_figures\<close>, an empty cell
  overwrites \<^verbatim>\<open>final_pos\<close>, and the loop goes on in both cases.
\<close>

definition direction_vector :: "string \<Rightarrow> (int \<times> int) option" where
  "direction_vector direction =
     (if direction = ''up'' then Some (- 1, 0)
      else if direction = ''down'' then Some (1, 0)
      else if direction = ''left'' then Some (0, - 1)
      else if direction = ''right'' then Some (0, 1)
      else None)"

fun charge_scan ::
  "GameState \<Rightarrow> ref \<Rightarrow> pos \<Rightarrow> int \<times> int \<Rightarrow> int list \<Rightarrow> ref list \<times> pos option
     \<Rightarrow> ref list \<times> pos option" where
  "charge_scan s knight origin d [] acc = acc"
| "charge_scan s knight origin d (i # rest) acc =
     (let new = (fst origin + i * fst d, snd origin + i * snd d) in
      if \<not> is_valid_position new then acc
      else if is_terrain s new then acc
      else (case get_figure_at s new of
              Some target \<Rightarrow>
                if player (store s target) \<noteq> player (store s knight)
                then charge_scan s knight origin d rest (fst acc @ [target], snd acc)
                else charge_scan s knight origin d rest acc
            | None \<Rightarrow> charge_scan s knight origin d rest (fst acc, Some new)))"

definition knight_charge :: "GameState \<Rightarrow> ref \<Rightarrow> string \<Rightarrow> bool outcome \<times> GameState" where
  "knight_charge s knight direction =
     (let k = store s knight in
      if ftype k \<noteq> KNIGHT then (Return False, s)
      else if has_moved k \<or> has_acted k then (Return False, s)
      else if counter_containment_turns k > 0 then (Return False, s)
      else (case position k of
              None \<Rightarrow> (Raise TypeError, s)
            | Some origin \<Rightarrow>
              (case direction_vector direction of
                 None \<Rightarrow> (Return False, s)
               | Some d \<Rightarrow>
                 (case charge_scan s knight origin d [1, 2, 3, 4] ([], None) of
                    (damaged_figures, None) \<Rightarrow> (Return False, s)
                  | (damaged_figures, Some final_pos) \<Rightarrow>
                    (case board_set s origin None of
                       Inl e \<Rightarrow> (Raise e, s)
                     | Inr s1 \<Rightarrow>
                       (case board_set s1 final_pos (Some knight) of
                          Inl e \<Rightarrow> (Raise e, s1)
                        | Inr s2 \<Rightarrow>
                          let s3 = upd s2 knight (\<lambda>f. f\<lparr>position := Some final_pos\<rparr>) in
                          (case damage_all s3 damaged_figures 2 of
                             (Raise e, s4) \<Rightarrow> (Raise e, s4)
                           | (Return _, s4) \<Rightarrow>
                             (Return True,
                              upd s4 knight
                                (\<lambda>f. f\<lparr>has_moved := True, has_acted := True\<rparr>)))))))))"

text \<open>\<^verbatim>\<open>arbalist_long_eye\<close>: the first occupied cell on the line ends the search.\<close>

definition long_eye_vector :: "string \<Rightarrow> (int \<times> int) option" where
  "long_eye_vector direction =
     map_of [(''up'', (- 1, 0)), (''down'', (1, 0)), (''left'', (0, - 1)), (''right'', (0, 1)),
             (''up-left'', (- 1, - 1)), (''up-right'', (- 1, 1)),
             (''down-left'', (1, - 1)), (''down-right'', (1, 1))] direction"

fun long_eye_scan ::
  "GameState \<Rightarrow> ref \<Rightarrow> pos \<Rightarrow> int \<times> int \<Rightarrow> int list \<Rightarrow> bool outcome \<times> GameState" where
  "long_eye_scan s arbalist origin d [] = (Return False, s)"
| "long_eye_scan s arbalist origin d (i # rest) =
     (let new = (fst origin + i * fst d, snd origin + i * snd d) in
      if \<not> is_valid_position new then (Return False, s)
      else (case get_figure_at s new of
              None \<Rightarrow> long_eye_scan s arbalist origin d rest
            | Some target \<Rightarrow>
              if player (store s target) \<noteq> player (store s arbalist)
              then (case deal_damage s target 1 of
                      (Raise e, s') \<Rightarrow> (Raise e, s')
                    | (Return _, s') \<Rightarrow>
                      (Return True, upd s' arbalist (\<lambda>f. f\<lparr>has_acted := True\<rparr>)))
              else (Return False, s)))"

definition arbalist_long_eye :: "GameState \<Rightarrow> ref \<Rightarrow> string \<Rightarrow> bool outcome \<times> GameState" where
  "arbalist_long_eye s arbalist direction =
     (let a = store s arbalist in
      if ftype a \<noteq> ARBALIST then (Return False, s)
      else if has_acted a then (Return False, s)
      else if counter_containment_turns a > 0 then (Return False, s)
      else (case position a of
              None \<Rightarrow> (Raise TypeError, s)
            | Some origin \<Rightarrow>
              (case long_eye_vector direction of
                 None \<Rightarrow> (Return False, s)
               | Some d \<Rightarrow> long_eye_scan s arbalist origin d [1, 2, 3, 4, 5, 6, 7])))"

text \<open>\<^verbatim>\<open>black_mage_magic_bomb\<close>: the affected cells are the target cell and its valid
  neighbours; each is looked up in the state as the earlier hits have left it.\<close>

definition affected_cells :: "pos \<Rightarrow> pos list" where
  "affected_cells target_pos =
     target_pos #
     filter is_valid_position
       (map (\<lambda>(dr, dc). (fst target_pos + dr, snd target_pos + dc))
          [(- 1, - 1), (- 1, 0), (- 1, 1), (0, - 1), (0, 1), (1, - 1), (1, 0), (1, 1)])"

fun bomb_loop :: "GameState \<Rightarrow> pos list \<Rightarrow> unit outcome \<times> GameState" where
  "bomb_loop s [] = (Return (), s)"
| "bomb_loop s (p # ps) =
     (case get_figure_at s p of
        None \<Rightarrow> bomb_loop s ps
      | Some target \<Rightarrow>
        (case deal_damage s target 2 of
           (Raise e, s') \<Rightarrow> (Raise e, s')
         | (Return _, s') \<Rightarrow> bomb_loop s' ps))"

definition black_mage_magic_bomb :: "GameState \<Rightarrow> ref \<Rightarrow> pos \<Rightarrow> bool outcome \<times> GameState" where
  "black_mage_magic_bomb s mage target_pos =
     (let m = store s mage in
      if ftype m \<noteq> BLACK_MAGE then (Return False, s)
      else if has_acted m then (Return False, s)
      else if counter_containment_turns m > 0 then (Return False, s)
      else if magic_bomb_used s (player m) then (Return False, s)
      else (case in_reach (position m) (Some target_pos) (reach m) of
              Inl e \<Rightarrow> (Raise e, s)
            | Inr False \<Rightarrow> (Return False, s)
            | Inr True \<Rightarrow>
              (case bomb_loop s (affected_cells target_pos) of
                 (Raise e, s1) \<Rightarrow> (Raise e, s1)
               | (Return _, s1) \<Rightarrow>
                 let s2 = s1\<lparr>magic_bomb_used :=
                               (magic_bomb_used s1)(player (store s1 mage) := True)\<rparr>
                 in (Return True, upd s2 mage (\<lambda>f. f\<lparr>has_acted := True\<rparr>)))))"

definition black_mage_plague :: "GameState \<Rightarrow> ref \<Rightarrow> ref \<Rightarrow> int \<Rightarrow> bool outcome \<times> GameState" where
  "black_mage_plague s mage target x =
     (let m = store s mage in
      if ftype m \<noteq> BLACK_MAGE then (Return False, s)
      else if has_acted m then (Return False, s)
      else if counter_containment_turns m > 0 then (Return False, s)
      else if x < 1 \<or> x \<ge> life m then (Return False, s)
      else if player (store s target) = player m then (Return False, s)
      else (case in_reach (position m) (position (store s target)) (reach m) of
              Inl e \<Rightarrow> (Raise e, s)
            | Inr False \<Rightarrow> (Return False, s)
            | Inr True \<Rightarrow>
              (case deal_damage s mage x of
                 (Raise e, s1) \<Rightarrow> (Raise e, s1)
               | (Return _, s1) \<Rightarrow>
                 (case deal_damage s1 target (x + 1) of
                    (Raise e, s2) \<Rightarrow> (Raise e, s2)
                  | (Return _, s2) \<Rightarrow>
                    (Return True, upd s2 mage (\<lambda>f. f\<lparr>has_acted := True\<rparr>))))))"

definition black_mage_vampiric_push ::
  "GameState \<Rightarrow> ref \<Rightarrow> ref \<Rightarrow> pos \<Rightarrow> bool outcome \<times> GameState" where
  "black_mage_vampiric_push s mage dead_figure p =
     (let m = store s mage in
      if ftype m \<noteq> BLACK_MAGE then (Return False, s)
      else if has_acted m then (Return False, s)
      else if counter_containment_turns m > 0 then (Return False, s)
      else if dead_figure \<notin> set (dead_figures s (player m)) then (Return False, s)
      else if p \<notin> set (get_start_zone (player m)) then (Return False, s)
      else if get_figure_at s p \<noteq> None then (Return False, s)
      else (case deal_damage s mage 1 of
              (Raise e, s1) \<Rightarrow> (Raise e, s1)
            | (Return _, s1) \<Rightarrow>
              if \<not> is_dead (store s1 mage) then
                let pl = player (store s1 mage);
                    s2 = s1\<lparr>dead_figures :=
                              (dead_figures s1)(pl := remove1 dead_figure (dead_figures s1 pl))\<rparr>;
                    s3 = upd s2 dead_figure
                           (\<lambda>f. f\<lparr>is_dead := False, life := 2, position := Some p,
                                  has_moved := False, has_acted := False,
                                  counter_containment_turns := 0\<rparr>)
                in (case board_set s3 p (Some dead_figure) of
                      Inl e \<Rightarrow> (Raise e, s3)
                    | Inr s4 \<Rightarrow>
                      let s5 = s4\<lparr>figures := figures s4 @ [dead_figure]\<rparr>;
                          opponent = (if player (store s5 mage) = ONE then TWO else ONE);
                          s6 = s5\<lparr>scores := (scores s5)(opponent := scores s5 opponent - 1)\<rparr>
                      in (Return True, upd s6 mage (\<lambda>f. f\<lparr>has_acted := True\<rparr>)))
              else (Return False, s1)))"

definition white_mage_conjure :: "GameState \<Rightarrow> ref \<Rightarrow> ref \<Rightarrow> bool outcome \<times> GameState" where
  "white_mage_conjure s mage target =
     (let m = store s mage in
      if ftype m \<noteq> WHITE_MAGE then (Return False, s)
      else if has_acted m then (Return False, s)
      else if counter_containment_turns m > 0 then (Return False, s)
      else if player (store s target) = player m then (Return False, s)
      else if life (store s target) > 2 then (Return False, s)
      else (case in_reach (position m) (position (store s target)) (reach m) of
              Inl e \<Rightarrow> (Raise e, s)
            | Inr False \<Rightarrow> (Return False, s)
            | Inr True \<Rightarrow>
              let s1 = upd s target (\<lambda>f. f\<lparr>player := player m\<rparr>)
              in (Return True, upd s1 mage (\<lambda>f. f\<lparr>has_acted := True\<rparr>))))"

definition white_mage_heal :: "GameState \<Rightarrow> ref \<Rightarrow> ref \<Rightarrow> bool outcome \<times> GameState" where
  "white_mage_heal s mage target =
     (let m = store s mage in
      if ftype m \<noteq> WHITE_MAGE then (Return False, s)
      else if has_acted m then (Return False, s)
      else if counter_containment_turns m > 0 then (Return False, s)
      else (case in_reach (position m) (position (store s target)) (reach m) of
              Inl e \<Rightarrow> (Raise e, s)
            | Inr False \<Rightarrow> (Return False, s)
            | Inr True \<Rightarrow>
              let s1 = upd s target (\<lambda>f. f\<lparr>life := min (life f + 3) (max_life f)\<rparr>)
              in (Return True, upd s1 mage (\<lambda>f. f\<lparr>has_acted := True\<rparr>))))"

definition white_mage_counter_containment ::
  "GameState \<Rightarrow> ref \<Rightarrow> ref \<Rightarrow> bool outcome \<times> GameState" where
  "white_mage_counter_containment s mage target =
     (let m = store s mage in
      if ftype m \<noteq> WHITE_MAGE then (Return False, s)
      else if has_acted m then (Return False, s)
      else if counter_containment_turns m > 0 then (Return False, s)
      else if player (store s target) = player m then (Return False, s)
      else (case in_reach (position m) (position (store s target)) (reach m) of
              Inl e \<Rightarrow> (Raise e, s)
            | Inr False \<Rightarrow> (Return False, s)
            | Inr True \<Rightarrow>
              let s1 = upd s target (\<lambda>f. f\<lparr>counter_containment_turns := 2\<rparr>)
              in (Return True, upd s1 mage (\<lambda>f. f\<lparr>has_acted := True\<rparr>))))"

section \<open>Turn manager and win evaluator\<close>

definition check_win_conditions :: "GameState \<Rightarrow> GameState" where
  "check_win_conditions s =
     (if scores s ONE \<ge> 4 then s\<lparr>game_over := True, winner := Some ONE\<rparr>
      else if scores s TWO \<ge> 4 then s\<lparr>game_over := True, winner := Some TWO\<rparr>
      else
        let player_one_figures = filter (\<lambda>f. player (store s f) = ONE) (figures s);
            player_two_figures = filter (\<lambda>f. player (store s f) = TWO) (figures s)
        in if player_one_figures = [] then s\<lparr>game_over := True, winner := Some TWO\<rparr>
           else if player_two_figures = [] then s\<lparr>game_over := True, winner := Some ONE\<rparr>
           else s)"

text \<open>The two loops of \<^verbatim>\<open>end_turn\<close> over the alive list, one element at a time.\<close>

definition reset_flags :: "Player \<Rightarrow> GameState \<Rightarrow> ref list \<Rightarrow> GameState" where
  "reset_flags cur s fs =
     foldl (\<lambda>s figure. if player (store s figure) = cur
                         then upd s figure (\<lambda>f. f\<lparr>has_moved := False, has_acted := False\<rparr>)
                         else s) s fs"

definition decay_containment :: "GameState \<Rightarrow> ref list \<Rightarrow> GameState" where
  "decay_containment s fs =
     foldl (\<lambda>s figure. if counter_containment_turns (store s figure) > 0
                         then upd s figure
                                (\<lambda>f. f\<lparr>counter_containment_turns := counter_containment_turns f - 1\<rparr>)
                         else s) s fs"

definition end_turn :: "GameState \<Rightarrow> GameState" where
  "end_turn s =
     (let s1 = reset_flags (current_player s) s (figures s);
          s2 = decay_containment s1 (figures s1);
          s3 = s2\<lparr>current_player := (if current_player s2 = ONE then TWO else ONE)\<rparr>;
          s4 = s3\<lparr>turn_count := turn_count s3 + 1\<rparr>
      in check_win_conditions s4)"

section \<open>The action interface\<close>

text \<open>
  One constructor per entry point of the engine, with the arguments the method takes.
  \<^verbatim>\<open>end_turn\<close> returns nothing (\<open>None\<close>), every other entry point a success flag.
\<close>

datatype call =
    Place ref pos
  | Move ref pos
  | Attack ref pos
  | Charge ref string
  | LongEye ref string
  | Bomb ref pos
  | Plague ref ref int
  | Push ref ref pos
  | Conjure ref ref
  | Heal ref ref
  | Contain ref ref
  | EndTurn

definition flagged :: "bool outcome \<times> GameState \<Rightarrow> bool option outcome \<times> GameState" where
  "flagged r = (case r of (Return b, s) \<Rightarrow> (Return (Some b), s) | (Raise e, s) \<Rightarrow> (Raise e, s))"

fun perform :: "GameState \<Rightarrow> call \<Rightarrow> bool option outcome \<times> GameState" where
  "perform s (Place f p) = flagged (place_figure s f p)"
| "perform s (Move f p) = flagged (move_figure s f p)"
| "perform s (Attack f p) = flagged (attack s f p)"
| "perform s (Charge f d) = flagged (knight_charge s f d)"
| "perform s (LongEye f d) = flagged (arbalist_long_eye s f d)"
| "perform s (Bomb f p) = flagged (black_mage_magic_bomb s f p)"
| "perform s (Plague f t x) = flagged (black_mage_plague s f t x)"
| "perform s (Push f d p) = flagged (black_mage_vampiric_push s f d p)"
| "perform s (Conjure f t) = flagged (white_mage_conjure s f t)"
| "perform s (Heal f t) = flagged (white_mage_heal s f t)"
| "perform s (Contain f t) = flagged (white_mage_counter_containment s f t)"
| "perform s EndTurn = (Return None, end_turn s)"

definition run :: "GameState \<Rightarrow> call list \<Rightarrow> GameState" where
  "run s cs = foldl (\<lambda>s c. snd (perform s c)) s cs"

section \<open>Derived notions and example states\<close>


text \<open>Two adjacent enemies: a Knight of player one at (2,2), a Barbarian of player two
  at (2,3).\<close>

definition duel_store :: "ref \<Rightarrow> Figure" where
  "duel_store = (\<lambda>_. Figure_init KNIGHT ONE)
     (2 := (Figure_init KNIGHT ONE)\<lparr>position := Some (2, 2)\<rparr>,
      3 := (Figure_init BARBARIAN TWO)\<lparr>position := Some (2, 3)\<rparr>)"

definition duel :: GameState where
  "duel = (GameState_init duel_store)
     \<lparr>board := (\<lambda>_. None)((2, 2) := Some 2, (2, 3) := Some 3), figures := [2, 3]\<rparr>"

text \<open>Two Knights on the column 0, one at each edge of the board.\<close>

definition edge_store :: "ref \<Rightarrow> Figure" where
  "edge_store = (\<lambda>_. Figure_init KNIGHT ONE)
     (2 := (Figure_init KNIGHT ONE)\<lparr>position := Some (0, 0)\<rparr>,
      3 := (Figure_init KNIGHT TWO)\<lparr>position := Some (7, 0)\<rparr>)"

definition edge :: GameState where
  "edge = (GameState_init edge_store)
     \<lparr>board := (\<lambda>_. None)((0, 0) := Some 2, (7, 0) := Some 3), figures := [2, 3]\<rparr>"

text \<open>The duel after the knight has moved and acted and the barbarian has acted and
  been contained.\<close>

definition locked_duel :: GameState where
  "locked_duel = duel\<lparr>store := (store duel)
      (2 := (store duel 2)\<lparr>has_moved := True, has_acted := True\<rparr>,
       3 := (store duel 3)\<lparr>has_acted := True, counter_containment_turns := 2\<rparr>)\<rparr>"

text \<open>What a damage call may change: life and death of units, the board, the alive
  list, the dead pools and the scores; everything else is as before.\<close>

definition damage_frame :: "GameState \<Rightarrow> GameState \<Rightarrow> bool" where
  "damage_frame s s' \<longleftrightarrow>
     magic_bomb_used s' = magic_bomb_used s \<and> terrain s' = terrain s
     \<and> current_player s' = current_player s \<and> turn_count s' = turn_count s
     \<and> game_over s' = game_over s \<and> winner s' = winner s
     \<and> (\<forall>f. (store s' f)\<lparr>life := life (store s f), is_dead := is_dead (store s f)\<rparr>
              = store s f)"

text \<open>The one-shot flags and the owner of every unit.\<close>

definition sig :: "GameState \<Rightarrow> (Player \<Rightarrow> bool) \<times> (ref \<Rightarrow> Player)" where
  "sig s = (magic_bomb_used s, (\<lambda>f. player (store s f)))"


text \<open>A black mage of player one and an enemy knight two rows below.\<close>

definition coven :: GameState where
  "coven = (GameState_init ((\<lambda>_. Figure_init KNIGHT ONE)
       (2 := (Figure_init BLACK_MAGE ONE)\<lparr>position := Some (1, 1)\<rparr>,
        3 := (Figure_init KNIGHT TWO)\<lparr>position := Some (3, 1)\<rparr>)))
     \<lparr>board := (\<lambda>_. None)((1, 1) := Some 2, (3, 1) := Some 3), figures := [2, 3]\<rparr>"


text \<open>A white mage of player one and a knight of player two, both still off the board.\<close>

definition twice_store :: "ref \<Rightarrow> Figure" where
  "twice_store = (\<lambda>_. Figure_init KNIGHT ONE)
     (2 := Figure_init WHITE_MAGE ONE, 3 := Figure_init KNIGHT TWO)"

text \<open>The knight is placed twice, which the engine accepts; the mage walks up to it and
  contains it.\<close>

definition twice_calls :: "call list" where
  "twice_calls = [Place 2 (1, 1), Place 3 (6, 0), Place 3 (6, 1), Move 2 (3, 1), EndTurn,
     EndTurn, Move 2 (5, 1), Contain 2 3]"

definition twice_placed :: GameState where
  "twice_placed = run (GameState_init twice_store) twice_calls"

section \<open>Basic lemmas\<close>

lemma upd_simps [simp]:
  "store (upd s t g) = (store s)(t := g (store s t))"
  "board (upd s t g) = board s"
  "figures (upd s t g) = figures s"
  "dead_figures (upd s t g) = dead_figures s"
  "scores (upd s t g) = scores s"
  "terrain (upd s t g) = terrain s"
  "magic_bomb_used (upd s t g) = magic_bomb_used s"
  "current_player (upd s t g) = current_player s"
  "turn_count (upd s t g) = turn_count s"
  "game_over (upd s t g) = game_over s"
  "winner (upd s t g) = winner s"
  by (simp_all add: upd_def)



lemma py_idx_range: "py_idx i = Some j \<Longrightarrow> 0 \<le> j \<and> j < 8"
  by (auto simp: py_idx_def split: if_splits)

lemma board_set_Inr:
  assumes "board_set s p v = Inr s'"
  shows "\<exists>q. is_valid_position q \<and> s' = s\<lparr>board := (board s)(q := v)\<rparr>"
proof -
  obtain row col where p: "p = (row, col)" by (cases p)
  from assms p obtain r c where rc: "py_idx row = Some r" "py_idx col = Some c"
    and s': "s' = s\<lparr>board := (board s)((r, c) := v)\<rparr>"
    by (auto simp: board_set_def split: option.splits)
  from rc have "is_valid_position (r, c)"
    by (auto simp: is_valid_position_def dest: py_idx_range)
  with s' show ?thesis by blast
qed

lemma opponent_of_simps [simp]:
  "opponent_of ONE = TWO" "opponent_of TWO = ONE" "opponent_of p \<noteq> p" "p \<noteq> opponent_of p"
  "opponent_of (opponent_of p) = p"
  by (cases p; simp add: opponent_of_def)+

lemma opponent_if: "(if p = ONE then TWO else ONE) = opponent_of p"
  by (simp add: opponent_of_def)


lemma deal_damage_survive:
  "life (store s t) - d > 0 \<Longrightarrow>
   deal_damage s t d = (Return (), upd s t (\<lambda>f. f\<lparr>life := life f - d\<rparr>))"
  by (simp add: deal_damage_def Let_def)



lemma line_coord_end: "0 < steps \<Longrightarrow> line_coord f t steps steps = t"
proof -
  assume st: "0 < steps"
  have e: "f * steps + (t - f) * steps = t * steps" by (simp add: algebra_simps)
  show ?thesis
  proof (cases "0 \<le> t * steps")
    case True
    then show ?thesis using st by (simp add: line_coord_def e)
  next
    case False
    have "- (t * steps) = (- t) * steps" by simp
    then have "(- (t * steps)) div steps = - t" using st by (metis nonzero_mult_div_cancel_right less_irrefl)
    with False show ?thesis by (simp add: line_coord_def e)
  qed
qed

lemma attack_success_own_cell:
  assumes "attack s a tp = (Return True, s')"
  shows "position (store s a) = Some tp"
proof (rule ccontr)
  assume ne: "position (store s a) \<noteq> Some tp"
  obtain tr tc where tp: "tp = (tr, tc)" by (cases tp)
  from assms obtain t where occ: "get_figure_at s tp = Some t"
    by (auto simp: attack_def Let_def split: if_splits option.splits)
  from assms obtain fr fc where ap: "position (store s a) = Some (fr, fc)"
    by (cases "position (store s a)") (auto simp: attack_def Let_def split: if_splits option.splits)
  from assms occ ap have clear: "is_path_clear s (fr, fc) tp (ftype (store s a) = ARBALIST) False"
    by (auto simp: attack_def Let_def split: if_splits option.splits prod.splits outcome.splits)
  define steps where "steps = max \<bar>tr - fr\<bar> \<bar>tc - fc\<bar>"
  from ne ap tp have pos: "0 < steps" by (auto simp: steps_def)
  then have mem: "steps \<in> set [1 .. steps + 1 - 1]" by simp
  from clear pos have "list_all
          (\<lambda>i. let r = line_coord fr tr steps i; c = line_coord fc tc steps i
               in get_figure_at s (r, c) = None \<and> \<not> is_terrain s (r, c))
          [1 .. steps + 1 - 1]"
    by (auto simp: is_path_clear_def tp steps_def Let_def split: if_splits)
  with mem have "get_figure_at s (line_coord fr tr steps steps, line_coord fc tc steps steps) = None"
    unfolding list_all_iff by (metis (mono_tags, lifting))
  with pos occ tp show False by (simp add: line_coord_end)
qed

lemmas example_defs = duel_def duel_store_def edge_def edge_store_def
  GameState_init_def Figure_init_def stats_def

lemmas query_defs = get_figure_at_def is_valid_position_def is_terrain_def distance_def
  is_path_clear_def line_coord_def

section \<open>Claims settled by evaluation\<close>

text \<open>
  Claim C6. A destination outside \<open>[0,8) \<times> [0,8)\<close> given to \<^verbatim>\<open>move_figure\<close> should be
  refused with the state unchanged. The method never calls \<^verbatim>\<open>is_valid_position\<close> on its
  destination: on the two-knight board, moving the knight at (0,0) to (-1,0) reports success
  and writes through the wrapped index into the cell (7,0), over the knight standing there,
  and moving the knight at (7,0) to (8,0) clears its origin cell and then raises
  \<^verbatim>\<open>IndexError\<close>.
\<close>

theorem move_out_of_bounds:
  "\<not> is_valid_position (- 1, 0) \<and> \<not> is_valid_position (8, 0)
   \<and> board edge (7, 0) = Some 3
   \<and> fst (move_figure edge 2 (- 1, 0)) = Return True
   \<and> board (snd (move_figure edge 2 (- 1, 0))) (7, 0) = Some 2
   \<and> position (store (snd (move_figure edge 2 (- 1, 0))) 2) = Some (- 1, 0)
   \<and> fst (move_figure edge 3 (8, 0)) = Raise IndexError
   \<and> board (snd (move_figure edge 3 (8, 0))) (7, 0) = None"
  by (simp add: move_figure_def example_defs query_defs board_set_def py_idx_def upto.simps)

text \<open>
  Claim C1. An attack on an enemy within reach with a free line of sight should succeed,
  the target cell being left out of the line-of-sight check. With \<^verbatim>\<open>check_target=False\<close>
  the loop of \<^verbatim>\<open>_is_path_clear\<close> runs up to and including the target cell, which holds
  the target: the attack of the knight at (2,2) on the adjacent barbarian at (2,3) returns
  failure and leaves the state as it was (\<open>attack_success_own_cell\<close> shows that no attack
  on another cell can succeed).
\<close>

theorem attack_adjacent_enemy_fails:
  "\<not> has_acted (store duel 2) \<and> counter_containment_turns (store duel 2) = 0
   \<and> get_figure_at duel (2, 3) = Some 3 \<and> player (store duel 3) \<noteq> player (store duel 2)
   \<and> position (store duel 2) = Some (2, 2)
   \<and> distance (ftype (store duel 2)) (2, 2) (2, 3) \<le> reach (store duel 2)
   \<and> attack duel 2 (2, 3) = (Return False, duel)"
  by (simp add: attack_def example_defs query_defs upto.simps)

section \<open>Combat resolver: one death, one point\<close>



section \<open>Turn manager\<close>

lemma reset_flags_shape: "\<exists>g. reset_flags cur s fs = s\<lparr>store := g\<rparr>"
proof (induction fs rule: rev_induct)
  case Nil
  show ?case unfolding reset_flags_def foldl_Nil by (rule exI[of _ "store s"]) simp
next
  case (snoc x xs)
  then obtain g where g: "reset_flags cur s xs = s\<lparr>store := g\<rparr>" by blast
  have "reset_flags cur s (xs @ [x]) =
      (if player (store (reset_flags cur s xs) x) = cur
       then upd (reset_flags cur s xs) x (\<lambda>f. f\<lparr>has_moved := False, has_acted := False\<rparr>)
       else reset_flags cur s xs)"
    by (simp add: reset_flags_def)
  then show ?case unfolding g
    by (cases "player (g x) = cur") (simp_all add: upd_def, blast+)
qed

lemma reset_flags_store:
  "store (reset_flags cur s fs) f =
     (if f \<in> set fs \<and> player (store s f) = cur
      then (store s f)\<lparr>has_moved := False, has_acted := False\<rparr> else store s f)"
  unfolding reset_flags_def
  by (induction fs rule: rev_induct) auto

lemma reset_flags_eq:
  "reset_flags cur s fs =
     s\<lparr>store := (\<lambda>f. if f \<in> set fs \<and> player (store s f) = cur
                       then (store s f)\<lparr>has_moved := False, has_acted := False\<rparr>
                       else store s f)\<rparr>"
proof -
  obtain g where g: "reset_flags cur s fs = s\<lparr>store := g\<rparr>"
    using reset_flags_shape by blast
  have "store (reset_flags cur s fs) = (\<lambda>f. if f \<in> set fs \<and> player (store s f) = cur
                       then (store s f)\<lparr>has_moved := False, has_acted := False\<rparr>
                       else store s f)"
    by (rule ext) (rule reset_flags_store)
  then show ?thesis unfolding g by simp
qed

lemma decay_containment_shape: "\<exists>g. decay_containment s fs = s\<lparr>store := g\<rparr>"
proof (induction fs rule: rev_induct)
  case Nil
  show ?case unfolding decay_containment_def foldl_Nil by (rule exI[of _ "store s"]) simp
next
  case (snoc x xs)
  then obtain g where g: "decay_containment s xs = s\<lparr>store := g\<rparr>" by blast
  have "decay_containment s (xs @ [x]) =
      (if counter_containment_turns (store (decay_containment s xs) x) > 0
       then upd (decay_containment s xs) x
              (\<lambda>f. f\<lparr>counter_containment_turns := counter_containment_turns f - 1\<rparr>)
       else decay_containment s xs)"
    by (simp add: decay_containment_def)
  then show ?case unfolding g
    by (cases "counter_containment_turns (g x) > 0") (simp_all add: upd_def, blast+)
qed

lemma check_win_conditions_frame:
  "\<exists>g w. check_win_conditions s = s\<lparr>game_over := g, winner := w\<rparr>"
proof -
  have "s = s\<lparr>game_over := game_over s, winner := winner s\<rparr>" by simp
  then show ?thesis
    unfolding check_win_conditions_def Let_def
    by (metis (full_types))
qed

lemma check_win_conditions_fields [simp]:
  "store (check_win_conditions s) = store s"
  "board (check_win_conditions s) = board s"
  "figures (check_win_conditions s) = figures s"
  "dead_figures (check_win_conditions s) = dead_figures s"
  "scores (check_win_conditions s) = scores s"
  "terrain (check_win_conditions s) = terrain s"
  "magic_bomb_used (check_win_conditions s) = magic_bomb_used s"
  "current_player (check_win_conditions s) = current_player s"
  "turn_count (check_win_conditions s) = turn_count s"
  by (simp_all add: check_win_conditions_def Let_def)

lemma check_win_conditions_cong:
  assumes "scores a = scores b" "figures a = figures b" "game_over a = game_over b"
    "winner a = winner b" "\<And>f. player (store a f) = player (store b f)"
  shows "game_over (check_win_conditions a) = game_over (check_win_conditions b)
       \<and> winner (check_win_conditions a) = winner (check_win_conditions b)"
  using assms by (simp add: check_win_conditions_def Let_def)

section \<open>Frame lemmas and failure results\<close>

lemma damage_frame_refl [simp]: "damage_frame s s"
  by (simp add: damage_frame_def)

lemma damage_frame_trans: "damage_frame a b \<Longrightarrow> damage_frame b c \<Longrightarrow> damage_frame a c"
  unfolding damage_frame_def
  apply (intro conjI allI)
        apply simp_all
  apply (metis (no_types, lifting) Figure.surjective Figure.update_convs(11) Figure.update_convs(12))
  done

lemma damage_frame_fields:
  assumes "damage_frame s s'"
  shows "player (store s' f) = player (store s f)" "ftype (store s' f) = ftype (store s f)"
    "position (store s' f) = position (store s f)" "max_life (store s' f) = max_life (store s f)"
    "has_moved (store s' f) = has_moved (store s f)" "has_acted (store s' f) = has_acted (store s f)"
    "counter_containment_turns (store s' f) = counter_containment_turns (store s f)"
    "reach (store s' f) = reach (store s f)" "move (store s' f) = move (store s f)"
    "attack_power (store s' f) = attack_power (store s f)"
    "magic_bomb_used s' = magic_bomb_used s" "terrain s' = terrain s"
    "current_player s' = current_player s" "turn_count s' = turn_count s"
    "game_over s' = game_over s" "winner s' = winner s"
proof -
  from assms have e: "(store s' f)\<lparr>life := life (store s f), is_dead := is_dead (store s f)\<rparr>
              = store s f" by (simp add: damage_frame_def)
  show "player (store s' f) = player (store s f)" using arg_cong[OF e, of player] by simp
  show "ftype (store s' f) = ftype (store s f)" using arg_cong[OF e, of ftype] by simp
  show "position (store s' f) = position (store s f)" using arg_cong[OF e, of position] by simp
  show "max_life (store s' f) = max_life (store s f)" using arg_cong[OF e, of max_life] by simp
  show "has_moved (store s' f) = has_moved (store s f)" using arg_cong[OF e, of has_moved] by simp
  show "has_acted (store s' f) = has_acted (store s f)" using arg_cong[OF e, of has_acted] by simp
  show "counter_containment_turns (store s' f) = counter_containment_turns (store s f)"
    using arg_cong[OF e, of counter_containment_turns] by simp
  show "reach (store s' f) = reach (store s f)" using arg_cong[OF e, of reach] by simp
  show "move (store s' f) = move (store s f)" using arg_cong[OF e, of move] by simp
  show "attack_power (store s' f) = attack_power (store s f)"
    using arg_cong[OF e, of attack_power] by simp
qed (use assms in \<open>simp_all add: damage_frame_def\<close>)

lemma deal_damage_frame: "damage_frame s (snd (deal_damage s t d))"
  by (auto simp: deal_damage_def Let_def damage_frame_def upd_def
      dest!: board_set_Inr split: option.splits sum.splits)

lemma deal_damage_others:
  "f \<noteq> t \<Longrightarrow> store (snd (deal_damage s t d)) f = store s f"
  by (auto simp: deal_damage_def Let_def upd_def
      dest!: board_set_Inr split: option.splits sum.splits)

lemma damage_all_frame: "damage_frame s (snd (damage_all s ts d))"
proof (induction ts arbitrary: s)
  case Nil
  then show ?case by simp
next
  case (Cons t ts)
  obtain r s1 where dd: "deal_damage s t d = (r, s1)" by (cases "deal_damage s t d")
  have f1: "damage_frame s s1" using deal_damage_frame[of s t d] dd by simp
  show ?case
  proof (cases r)
    case (Return u)
    with dd have "snd (damage_all s (t # ts) d) = snd (damage_all s1 ts d)" by simp
    with Cons.IH[of s1] f1 show ?thesis by (metis damage_frame_trans)
  next
    case (Raise e)
    with dd f1 show ?thesis by simp
  qed
qed

lemma bomb_loop_frame: "damage_frame s (snd (bomb_loop s ps))"
proof (induction ps arbitrary: s)
  case Nil
  then show ?case by simp
next
  case (Cons p ps)
  show ?case
  proof (cases "get_figure_at s p")
    case None
    with Cons.IH[of s] show ?thesis by simp
  next
    case (Some t)
    obtain r s1 where dd: "deal_damage s t 2 = (r, s1)" by (cases "deal_damage s t 2")
    have f1: "damage_frame s s1" using deal_damage_frame[of s t 2] dd by simp
    show ?thesis
    proof (cases r)
      case (Return u)
      with dd Some have "snd (bomb_loop s (p # ps)) = snd (bomb_loop s1 ps)" by simp
      with Cons.IH[of s1] f1 show ?thesis by (metis damage_frame_trans)
    next
      case (Raise e)
      with dd f1 Some show ?thesis by simp
    qed
  qed
qed














lemma sig_eqD:
  "sig s' = sig s \<Longrightarrow> magic_bomb_used s' = magic_bomb_used s
      \<and> player (store s' f) = player (store s f)"
  by (auto simp: sig_def fun_eq_iff)

lemma sig_simps [simp]:
  "sig (s\<lparr>board := b\<rparr>) = sig s"
  "sig (s\<lparr>figures := fs\<rparr>) = sig s"
  "sig (s\<lparr>dead_figures := dp\<rparr>) = sig s"
  "sig (s\<lparr>scores := sc\<rparr>) = sig s"
  "sig (s\<lparr>current_player := cp\<rparr>) = sig s"
  "sig (s\<lparr>turn_count := tc\<rparr>) = sig s"
  "sig (s\<lparr>game_over := g\<rparr>) = sig s"
  "sig (s\<lparr>winner := w\<rparr>) = sig s"
  by (simp_all add: sig_def)

lemma sig_upd: "player (g (store s t)) = player (store s t) \<Longrightarrow> sig (upd s t g) = sig s"
  by (auto simp: sig_def fun_eq_iff)

lemma sig_board_set: "board_set s p v = Inr s' \<Longrightarrow> sig s' = sig s"
  by (auto dest!: board_set_Inr)

lemma sig_damage_frame: "damage_frame s s' \<Longrightarrow> sig s' = sig s"
  by (simp add: sig_def damage_frame_fields)

lemma sig_deal_damage: "deal_damage s t d = (r, s') \<Longrightarrow> sig s' = sig s"
  using deal_damage_frame[of s t d] by (simp add: sig_damage_frame)

lemma sig_damage_all: "damage_all s ts d = (r, s') \<Longrightarrow> sig s' = sig s"
  using damage_all_frame[of s ts d] by (simp add: sig_damage_frame)

lemma sig_bomb_loop: "bomb_loop s ps = (r, s') \<Longrightarrow> sig s' = sig s"
  using bomb_loop_frame[of s ps] by (simp add: sig_damage_frame)

lemma place_figure_sig: "sig (snd (place_figure s f p)) = sig s"
  by (auto simp: place_figure_def Let_def sig_upd dest!: sig_board_set
      split: sum.splits option.splits)

lemma move_figure_sig: "sig (snd (move_figure s f p)) = sig s"
  by (auto simp: move_figure_def Let_def sig_upd dest!: sig_board_set
      split: sum.splits option.splits)

lemma attack_sig: "sig (snd (attack s a p)) = sig s"
  by (auto simp: attack_def Let_def sig_upd dest!: sig_deal_damage
      split: sum.splits option.splits prod.splits outcome.splits)

lemma knight_charge_sig: "sig (snd (knight_charge s k d)) = sig s"
  by (auto simp: knight_charge_def Let_def sig_upd simp del: charge_scan.simps
      dest!: sig_board_set sig_damage_all
      split: sum.splits option.splits prod.splits outcome.splits)

lemma long_eye_scan_sig: "sig (snd (long_eye_scan s a origin d is)) = sig s"
  by (induction "is")
     (auto simp: Let_def sig_upd dest!: sig_deal_damage
       split: option.splits prod.splits outcome.splits)

lemma arbalist_long_eye_sig: "sig (snd (arbalist_long_eye s a d)) = sig s"
  by (auto simp: arbalist_long_eye_def Let_def long_eye_scan_sig
      simp del: long_eye_scan.simps split: option.splits)

lemma black_mage_plague_sig: "sig (snd (black_mage_plague s m t x)) = sig s"
  by (auto simp: black_mage_plague_def Let_def sig_upd
      dest!: sig_deal_damage
      split: sum.splits bool.splits prod.splits outcome.splits)

lemma white_mage_heal_sig: "sig (snd (white_mage_heal s m t)) = sig s"
  by (auto simp: white_mage_heal_def Let_def sig_upd split: sum.splits bool.splits)

lemma white_mage_counter_containment_sig:
  "sig (snd (white_mage_counter_containment s m t)) = sig s"
  by (auto simp: white_mage_counter_containment_def Let_def sig_upd
      split: sum.splits bool.splits)

lemma black_mage_vampiric_push_sig: "sig (snd (black_mage_vampiric_push s m d p)) = sig s"
  by (auto simp: black_mage_vampiric_push_def Let_def sig_upd
        dest!: sig_deal_damage sig_board_set
        split: sum.splits prod.splits outcome.splits)

lemma end_turn_sig: "sig (end_turn s) = sig s"
proof -
  have 1: "sig (reset_flags c s fs) = sig s" for c fs
    by (auto simp: reset_flags_eq sig_def fun_eq_iff)
  have 2: "sig (decay_containment a fs) = sig a" for a fs
    unfolding decay_containment_def
    by (induction fs arbitrary: a rule: rev_induct) (auto simp: sig_upd)
  show ?thesis
    by (simp add: end_turn_def Let_def check_win_conditions_def 1 2)
qed


lemma black_mage_magic_bomb_players:
  "player (store (snd (black_mage_magic_bomb s m tp)) f) = player (store s f)"
  by (auto simp: black_mage_magic_bomb_def Let_def
      dest!: sig_bomb_loop[THEN sig_eqD]
      split: sum.splits bool.splits prod.splits outcome.splits)

lemma black_mage_magic_bomb_flag_mono:
  "magic_bomb_used s p \<Longrightarrow> magic_bomb_used (snd (black_mage_magic_bomb s m tp)) p"
proof -
  have aux: "bomb_loop s ps = (r, s') \<Longrightarrow> magic_bomb_used s' = magic_bomb_used s" for ps r s'
    using sig_bomb_loop[THEN sig_eqD] by blast
  show "magic_bomb_used s p \<Longrightarrow> magic_bomb_used (snd (black_mage_magic_bomb s m tp)) p"
    by (auto simp: black_mage_magic_bomb_def Let_def dest!: aux
      split: sum.splits bool.splits prod.splits outcome.splits)
qed

lemma black_mage_magic_bomb_success:
  assumes "black_mage_magic_bomb s m tp = (Return True, s1)"
  shows "magic_bomb_used s1 = (magic_bomb_used s)(player (store s m) := True)"
proof -
  have aux: "bomb_loop s ps = (r, s') \<Longrightarrow>
      magic_bomb_used s' = magic_bomb_used s \<and> player (store s' m) = player (store s m)"
    for ps r s'
    using sig_bomb_loop[THEN sig_eqD] by blast
  from assms show ?thesis
    by (auto simp: black_mage_magic_bomb_def Let_def dest!: aux
      split: sum.splits bool.splits prod.splits outcome.splits if_splits)
qed

lemma black_mage_magic_bomb_used:
  "magic_bomb_used s (player (store s m)) \<Longrightarrow> black_mage_magic_bomb s m tp = (Return False, s)"
  by (simp add: black_mage_magic_bomb_def Let_def)

lemma white_mage_conjure_flags:
  "magic_bomb_used (snd (white_mage_conjure s m t)) = magic_bomb_used s"
  by (auto simp: white_mage_conjure_def Let_def split: sum.splits bool.splits)

lemma snd_flagged [simp]: "snd (flagged r) = snd r"
  by (auto simp: flagged_def split: prod.splits outcome.splits)

lemma perform_flag_mono:
  "magic_bomb_used s p \<Longrightarrow> magic_bomb_used (snd (perform s c)) p"
  by (cases c)
     (simp_all add: black_mage_magic_bomb_flag_mono white_mage_conjure_flags
        place_figure_sig[THEN sig_eqD] move_figure_sig[THEN sig_eqD] attack_sig[THEN sig_eqD]
        knight_charge_sig[THEN sig_eqD] arbalist_long_eye_sig[THEN sig_eqD]
        black_mage_plague_sig[THEN sig_eqD] black_mage_vampiric_push_sig[THEN sig_eqD]
        white_mage_heal_sig[THEN sig_eqD] white_mage_counter_containment_sig[THEN sig_eqD]
        end_turn_sig[THEN sig_eqD])

lemma perform_players:
  "(\<And>m t. c \<noteq> Conjure m t) \<Longrightarrow> player (store (snd (perform s c)) f) = player (store s f)"
  by (cases c)
     (auto simp add: black_mage_magic_bomb_players
        place_figure_sig[THEN sig_eqD] move_figure_sig[THEN sig_eqD] attack_sig[THEN sig_eqD]
        knight_charge_sig[THEN sig_eqD] arbalist_long_eye_sig[THEN sig_eqD]
        black_mage_plague_sig[THEN sig_eqD] black_mage_vampiric_push_sig[THEN sig_eqD]
        white_mage_heal_sig[THEN sig_eqD] white_mage_counter_containment_sig[THEN sig_eqD]
        end_turn_sig[THEN sig_eqD])

lemma run_Nil [simp]: "run s [] = s"
  by (simp add: run_def)

lemma run_Cons [simp]: "run s (c # cs) = run (snd (perform s c)) cs"
  by (simp add: run_def)

lemma run_flag_mono: "magic_bomb_used s p \<Longrightarrow> magic_bomb_used (run s cs) p"
  by (induction cs arbitrary: s) (simp_all add: perform_flag_mono)

lemma run_players:
  "(\<And>m t. Conjure m t \<notin> set cs) \<Longrightarrow> player (store (run s cs) f) = player (store s f)"
proof (induction cs arbitrary: s)
  case Nil
  then show ?case by simp
next
  case (Cons c cs)
  have 1: "\<And>m t. c \<noteq> Conjure m t" using Cons.prems by auto
  have 2: "\<And>m t. Conjure m t \<notin> set cs" using Cons.prems by auto
  show ?case using Cons.IH[OF 2] perform_players[OF 1] by simp
qed

text \<open>
  Claim C9. A successful magic bomb sets the one-shot flag of the caster's player and
  leaves the other player's flag as it was; after it, whatever engine calls follow, every
  magic bomb attempted by a mage of that player fails and changes nothing.
\<close>

theorem magic_bomb_once:
  assumes "black_mage_magic_bomb s mage tp = (Return True, s1)"
  shows "magic_bomb_used s1 (player (store s mage))
    \<and> magic_bomb_used s1 (opponent_of (player (store s mage))) =
        magic_bomb_used s (opponent_of (player (store s mage)))
    \<and> (\<forall>cs mage' tp'. player (store (run s1 cs) mage') = player (store s mage) \<longrightarrow>
          black_mage_magic_bomb (run s1 cs) mage' tp' = (Return False, run s1 cs))"
proof -
  have f: "magic_bomb_used s1 = (magic_bomb_used s)(player (store s mage) := True)"
    by (rule black_mage_magic_bomb_success[OF assms])
  then have used: "magic_bomb_used s1 (player (store s mage))" by simp
  have later: "black_mage_magic_bomb (run s1 cs) mage' tp' = (Return False, run s1 cs)"
    if "player (store (run s1 cs) mage') = player (store s mage)" for cs mage' tp'
    using run_flag_mono[OF used, of cs] that by (simp add: black_mage_magic_bomb_used)
  from f used later show ?thesis by simp
qed





section \<open>One-shot bomb and mind control\<close>

lemma coven_bomb_fst: "fst (black_mage_magic_bomb coven 2 (3, 1)) = Return True"
  by (simp add: black_mage_magic_bomb_def coven_def GameState_init_def Figure_init_def
      stats_def in_reach_def affected_cells_def get_figure_at_def is_valid_position_def
      deal_damage_def Let_def upd_def)

theorem magic_bomb_once_witness:
  "black_mage_magic_bomb coven 2 (3, 1) = (Return True, snd (black_mage_magic_bomb coven 2 (3, 1)))
   \<and> \<not> magic_bomb_used coven ONE
   \<and> magic_bomb_used (snd (black_mage_magic_bomb coven 2 (3, 1))) ONE
   \<and> \<not> magic_bomb_used (snd (black_mage_magic_bomb coven 2 (3, 1))) TWO
   \<and> black_mage_magic_bomb
        (run (snd (black_mage_magic_bomb coven 2 (3, 1))) [EndTurn, Move 2 (1, 2), EndTurn]) 2 (3, 2)
      = (Return False,
         run (snd (black_mage_magic_bomb coven 2 (3, 1))) [EndTurn, Move 2 (1, 2), EndTurn])"
proof -
  let ?s1 = "snd (black_mage_magic_bomb coven 2 (3, 1))"
  let ?cs = "[EndTurn, Move 2 (1, 2), EndTurn]"
  have h: "black_mage_magic_bomb coven 2 (3, 1) = (Return True, ?s1)"
    using coven_bomb_fst by (simp add: prod_eq_iff)
  have c: "player (store coven 2) = ONE" "\<not> magic_bomb_used coven ONE"
    "\<not> magic_bomb_used coven TWO"
    by (simp_all add: coven_def GameState_init_def Figure_init_def stats_def)
  have "\<And>m t. Conjure m t \<notin> set ?cs" by simp
  then have "player (store (run ?s1 ?cs) 2) = player (store ?s1 2)" by (rule run_players)
  also have "\<dots> = player (store coven 2)" by (rule black_mage_magic_bomb_players)
  finally have p: "player (store (run ?s1 ?cs) 2) = player (store coven 2)" .
  note m = magic_bomb_once[OF h]
  from m have a: "magic_bomb_used ?s1 ONE" "\<not> magic_bomb_used ?s1 TWO"
    by (simp_all add: c)
  from m p have "black_mage_magic_bomb (run ?s1 ?cs) 2 (3, 2) = (Return False, run ?s1 ?cs)"
    by blast
  with a h c show ?thesis by blast
qed







section \<open>The outcomes of a damage call\<close>

lemma upd_upd: "upd (upd s t g) t h = upd s t (\<lambda>f. h (g f))"
  by (simp add: upd_def)


section \<open>Turn manager: the effect of end_turn\<close>

lemma decay_containment_count:
  "store (decay_containment s fs) f =
     (store s f)\<lparr>counter_containment_turns :=
        (if counter_containment_turns (store s f) > 0
         then max 0 (counter_containment_turns (store s f) - int (count_list fs f))
         else counter_containment_turns (store s f))\<rparr>"
  unfolding decay_containment_def
  by (induction fs rule: rev_induct) auto

lemma end_turn_store:
  "store (end_turn s) f =
     (if f \<in> set (figures s)
      then (store s f)\<lparr>
             has_moved := (if player (store s f) = current_player s then False
                           else has_moved (store s f)),
             has_acted := (if player (store s f) = current_player s then False
                           else has_acted (store s f)),
             counter_containment_turns :=
               (if counter_containment_turns (store s f) > 0
                then max 0 (counter_containment_turns (store s f)
                             - int (count_list (figures s) f))
                else counter_containment_turns (store s f))\<rparr>
      else store s f)"
proof -
  have fg: "figures (reset_flags c s fs) = figures s" for c fs
    by (simp add: reset_flags_eq)
  have z: "f \<notin> set (figures s) \<Longrightarrow> count_list (figures s) f = 0"
    by (simp add: count_list_0_iff)
  show ?thesis
    by (simp add: end_turn_def Let_def decay_containment_count fg reset_flags_store z)
qed

lemma end_turn_rest:
  "current_player (end_turn s) = opponent_of (current_player s)"
  "turn_count (end_turn s) = turn_count s + 1"
  "board (end_turn s) = board s" "figures (end_turn s) = figures s"
  "dead_figures (end_turn s) = dead_figures s" "scores (end_turn s) = scores s"
  "terrain (end_turn s) = terrain s" "magic_bomb_used (end_turn s) = magic_bomb_used s"
proof -
  obtain g where g: "reset_flags (current_player s) s (figures s) = s\<lparr>store := g\<rparr>"
    using reset_flags_shape by blast
  obtain h where h: "decay_containment (s\<lparr>store := g\<rparr>) (figures s) = s\<lparr>store := g, store := h\<rparr>"
    using decay_containment_shape[of "s\<lparr>store := g\<rparr>" "figures s"] by auto
  have e: "end_turn s = check_win_conditions
      (s\<lparr>store := h, current_player := opponent_of (current_player s),
         turn_count := turn_count s + 1\<rparr>)"
    by (simp add: end_turn_def Let_def g h opponent_if)
  show "current_player (end_turn s) = opponent_of (current_player s)"
    "turn_count (end_turn s) = turn_count s + 1"
    "board (end_turn s) = board s" "figures (end_turn s) = figures s"
    "dead_figures (end_turn s) = dead_figures s" "scores (end_turn s) = scores s"
    "terrain (end_turn s) = terrain s" "magic_bomb_used (end_turn s) = magic_bomb_used s"
    unfolding e by simp_all
qed

lemma end_turn_verdict:
  "game_over (end_turn s) = game_over (check_win_conditions s)"
  "winner (end_turn s) = winner (check_win_conditions s)"
proof -
  obtain g where g: "reset_flags (current_player s) s (figures s) = s\<lparr>store := g\<rparr>"
    using reset_flags_shape by blast
  obtain h where h: "decay_containment (s\<lparr>store := g\<rparr>) (figures s) = s\<lparr>store := g, store := h\<rparr>"
    using decay_containment_shape[of "s\<lparr>store := g\<rparr>" "figures s"] by auto
  let ?m = "s\<lparr>store := h, current_player := opponent_of (current_player s),
         turn_count := turn_count s + 1\<rparr>"
  have e: "end_turn s = check_win_conditions ?m"
    by (simp add: end_turn_def Let_def g h opponent_if)
  have st: "store (end_turn s) = h" unfolding e by simp
  have pl: "player (h f) = player (store s f)" for f
    using end_turn_store[of s f] unfolding st by (simp split: if_splits)
  have "game_over (check_win_conditions ?m) = game_over (check_win_conditions s)
       \<and> winner (check_win_conditions ?m) = winner (check_win_conditions s)"
    by (rule check_win_conditions_cong) (simp_all add: pl)
  then show "game_over (end_turn s) = game_over (check_win_conditions s)"
    "winner (end_turn s) = winner (check_win_conditions s)"
    unfolding e by simp_all
qed

text \<open>
  Claim C7, as amended. For every state, \<^verbatim>\<open>end_turn\<close> clears \<open>has_moved\<close> and \<open>has_acted\<close>
  exactly for the units of the alive list owned by the player whose turn ends; it lowers
  every positive containment counter of the alive list, whoever the owner, by one for each
  time the unit occurs in that list, stopping at zero: by exactly one for a unit listed
  once; it flips the active player, adds one to the turn counter, sets the terminal flag and
  the winner as the win evaluation does, and changes nothing else (units outside the alive
  list are left as they are).
\<close>

theorem end_turn_effect:
  "(\<forall>f. store (end_turn s) f =
       (if f \<in> set (figures s)
        then (store s f)\<lparr>
               has_moved := (if player (store s f) = current_player s then False
                             else has_moved (store s f)),
               has_acted := (if player (store s f) = current_player s then False
                             else has_acted (store s f)),
               counter_containment_turns :=
                 (if counter_containment_turns (store s f) > 0
                  then max 0 (counter_containment_turns (store s f)
                               - int (count_list (figures s) f))
                  else counter_containment_turns (store s f))\<rparr>
        else store s f))
   \<and> (\<forall>f. count_list (figures s) f = 1 \<longrightarrow>
         counter_containment_turns (store (end_turn s) f) =
           (if counter_containment_turns (store s f) > 0
            then counter_containment_turns (store s f) - 1
            else counter_containment_turns (store s f)))
   \<and> current_player (end_turn s) = opponent_of (current_player s)
   \<and> turn_count (end_turn s) = turn_count s + 1
   \<and> game_over (end_turn s) = game_over (check_win_conditions s)
   \<and> winner (end_turn s) = winner (check_win_conditions s)
   \<and> board (end_turn s) = board s \<and> figures (end_turn s) = figures s
   \<and> dead_figures (end_turn s) = dead_figures s \<and> scores (end_turn s) = scores s
   \<and> terrain (end_turn s) = terrain s \<and> magic_bomb_used (end_turn s) = magic_bomb_used s"
proof -
  have 1: "\<forall>f. count_list (figures s) f = 1 \<longrightarrow>
         counter_containment_turns (store (end_turn s) f) =
           (if counter_containment_turns (store s f) > 0
            then counter_containment_turns (store s f) - 1
            else counter_containment_turns (store s f))"
  proof (intro allI impI)
    fix f assume c: "count_list (figures s) f = 1"
    then have "f \<in> set (figures s)" by (metis count_list_0_iff zero_neq_one)
    with c show "counter_containment_turns (store (end_turn s) f) =
           (if counter_containment_turns (store s f) > 0
            then counter_containment_turns (store s f) - 1
            else counter_containment_turns (store s f))"
      by (simp add: end_turn_store)
  qed
  from 1 end_turn_store[of s] end_turn_rest[of s] end_turn_verdict[of s]
  show ?thesis by blast
qed

theorem end_turn_effect_witness:
  "count_list (figures locked_duel) 3 = 1
   \<and> counter_containment_turns (store locked_duel 3) = 2
   \<and> counter_containment_turns (store (end_turn locked_duel) 3) = 1
   \<and> \<not> has_moved (store (end_turn locked_duel) 2) \<and> \<not> has_acted (store (end_turn locked_duel) 2)
   \<and> has_acted (store (end_turn locked_duel) 3)
   \<and> current_player (end_turn locked_duel) = TWO"
proof -
  have f: "figures locked_duel = [2, 3]" "current_player locked_duel = ONE"
    "player (store locked_duel 2) = ONE" "player (store locked_duel 3) = TWO"
    "has_acted (store locked_duel 3)" "counter_containment_turns (store locked_duel 3) = 2"
    by (simp_all add: locked_duel_def example_defs)
  have c: "count_list (figures locked_duel) 3 = 1" by (simp add: f)
  note e = end_turn_effect[of locked_duel]
  from e c have "counter_containment_turns (store (end_turn locked_duel) 3) =
           (if counter_containment_turns (store locked_duel 3) > 0
            then counter_containment_turns (store locked_duel 3) - 1
            else counter_containment_turns (store locked_duel 3))" by blast
  then have k: "counter_containment_turns (store (end_turn locked_duel) 3) = 1"
    by (simp add: f)
  from e have "store (end_turn locked_duel) 2 = (store locked_duel 2)\<lparr>has_moved := False,
      has_acted := False, counter_containment_turns :=
                 (if counter_containment_turns (store locked_duel 2) > 0
                  then max 0 (counter_containment_turns (store locked_duel 2)
                               - int (count_list (figures locked_duel) 2))
                  else counter_containment_turns (store locked_duel 2))\<rparr>"
    by (simp add: f)
  then have m: "\<not> has_moved (store (end_turn locked_duel) 2)"
    "\<not> has_acted (store (end_turn locked_duel) 2)" by simp_all
  from e have "has_acted (store (end_turn locked_duel) 3) = has_acted (store locked_duel 3)"
    by (simp add: f)
  then have a: "has_acted (store (end_turn locked_duel) 3)" by (simp add: f)
  from e have p: "current_player (end_turn locked_duel) = TWO" by (simp add: f)
  from c f(6) k m a p show ?thesis by blast
qed

lemma twice_calls_succeed:
  "map (\<lambda>n. fst (perform (run (GameState_init twice_store) (take n twice_calls))
       (twice_calls ! n))) [0, 1, 2, 3, 4, 5, 6, 7]
   = [Return (Some True), Return (Some True), Return (Some True), Return (Some True),
      Return None, Return None, Return (Some True), Return (Some True)]"
  by code_simp

lemma twice_placed_facts:
  "figures twice_placed = [2, 3, 3]"
  "counter_containment_turns (store twice_placed 3) = 2"
  "counter_containment_turns (store (end_turn twice_placed) 3) = 0"
  by code_simp+

text \<open>
  Claim C7 as stated fails. \<^verbatim>\<open>place_figure\<close> accepts a unit that is already on the
  board, so the alive list can hold a unit twice; then one \<^verbatim>\<open>end_turn\<close> lowers its
  containment counter twice, from 2 to 0, where the claim says by 1. The state is reached
  from the empty board by calls that all succeed.
\<close>

theorem double_placement_decays_twice:
  "twice_placed = run (GameState_init twice_store) twice_calls
   \<and> map (\<lambda>n. fst (perform (run (GameState_init twice_store) (take n twice_calls))
          (twice_calls ! n))) [0, 1, 2, 3, 4, 5, 6, 7]
      = [Return (Some True), Return (Some True), Return (Some True), Return (Some True),
         Return None, Return None, Return (Some True), Return (Some True)]
   \<and> figures twice_placed = [2, 3, 3]
   \<and> counter_containment_turns (store twice_placed 3) = 2
   \<and> counter_containment_turns (store (end_turn twice_placed) 3) = 0"
  using twice_calls_succeed twice_placed_facts by (simp add: twice_placed_def)

section \<open>Failure results of the action interface\<close>





end
